theory Spec2Isabelle
  imports Complex_Main "HOL-Library.Sublist"
begin

section \<open>Python strings\<close>

text \<open>
  A Python \<open>str\<close> is modelled as a \<open>string\<close> whose characters are the code points
  below 256 (ASCII and Latin-1).  \<open>str.lower()\<close> moves the capital letters \<open>A\<close>-\<open>Z\<close>
  (65-90) and the Latin-1 capitals (192-222, but for the multiplication sign 215) up
  by 32 and leaves every other code point in this range alone.
\<close>

definition lower_char :: "char \<Rightarrow> char" where
  "lower_char c =
     (let n = (of_char c :: nat)
      in if (65 \<le> n \<and> n \<le> 90) \<or> (192 \<le> n \<and> n \<le> 222 \<and> n \<noteq> 215)
         then char_of (n + 32) else c)"

definition str_lower :: "string \<Rightarrow> string" where
  "str_lower s = map lower_char s"

text \<open>
  The operator \<open>needle in haystack\<close> on two strings: the needle occurs at some
  position of the haystack.  The search tries every start position from the left.
\<close>

fun str_contains :: "string \<Rightarrow> string \<Rightarrow> bool" where
  "str_contains needle [] = (needle = [])"
| "str_contains needle (c # cs) = (prefix needle (c # cs) \<or> str_contains needle cs)"

section \<open>Exceptions\<close>

text \<open>
  Exceptions are values: the class, and the message that \<open>str(e)\<close> gives.
  \<open>IntegrityError\<close> and \<open>InvalidRequestError\<close> are subclasses of
  \<open>SQLAlchemyError\<close>.  An \<open>HTTPException\<close> carries a status code and a detail, and
  its \<open>str\<close> is the two with a colon between them.
\<close>

datatype exn =
    ProviderError string
  | IndexError string
  | SQLAlchemyError string
  | ClientError string
  | ValueError string
  | TypeError string
  | IntegrityError string
  | InvalidRequestError string
  | HTTPException nat string

fun str_of_nat :: "nat \<Rightarrow> string" where
  "str_of_nat n =
     (if n < 10 then [char_of (48 + n)]
      else str_of_nat (n div 10) @ [char_of (48 + n mod 10)])"

declare str_of_nat.simps [simp del]

fun str_of_exn :: "exn \<Rightarrow> string" where
  "str_of_exn (ProviderError m) = m"
| "str_of_exn (IndexError m) = m"
| "str_of_exn (SQLAlchemyError m) = m"
| "str_of_exn (ClientError m) = m"
| "str_of_exn (ValueError m) = m"
| "str_of_exn (TypeError m) = m"
| "str_of_exn (IntegrityError m) = m"
| "str_of_exn (InvalidRequestError m) = m"
| "str_of_exn (HTTPException code detail) = str_of_nat code @ '': '' @ detail"

section \<open>Industry categorization (app/services/industry.py)\<close>

text \<open>
  \<open>IndustryService.__init__\<close> builds the dictionary \<open>self.categories\<close>.  A Python
  dictionary iterates in insertion order, so it is an association list here.
\<close>

definition categories :: "(string \<times> string list) list" where
  "categories =
     [(''technology'',
        [''software'', ''it'', ''cybersecurity'', ''web development'',
         ''mobile apps'', ''cloud computing'', ''artificial intelligence'']),
      (''healthcare'',
        [''medical'', ''dental'', ''pharmacy'', ''wellness'', ''fitness'',
         ''mental health'', ''healthcare technology'']),
      (''retail'',
        [''fashion'', ''electronics'', ''groceries'', ''furniture'',
         ''e-commerce'', ''luxury goods'', ''sporting goods'']),
      (''services'',
        [''consulting'', ''legal'', ''accounting'', ''marketing'',
         ''design'', ''cleaning'', ''maintenance'']),
      (''hospitality'',
        [''restaurants'', ''hotels'', ''tourism'', ''events'',
         ''catering'', ''travel'', ''entertainment''])]"

text \<open>
  The loop \<open>for category, keywords in self.categories.items()\<close> of
  \<open>_categorize_industry\<close>, with \<open>any(keyword in name_lower for keyword in keywords)\<close>
  as its test and \<open>return "other"\<close> after it.
\<close>

fun categorize_loop :: "(string \<times> string list) list \<Rightarrow> string \<Rightarrow> string" where
  "categorize_loop [] name_lower = ''other''"
| "categorize_loop ((category, keywords) # rest) name_lower =
     (if list_ex (\<lambda>keyword. str_contains keyword name_lower) keywords then category
      else categorize_loop rest name_lower)"

definition categorize_industry :: "string \<Rightarrow> string" where
  "categorize_industry name = (let name_lower = str_lower name in categorize_loop categories name_lower)"

section \<open>Content generation with retry (app/core/ai.py)\<close>

text \<open>
  The response of the completion API, as far as \<open>generate_blog_content\<close> reads it:
  \<open>response.choices[i].message.content\<close>, \<open>response.choices[i].finish_reason\<close> and
  \<open>response.usage.total_tokens\<close>.
\<close>

record choice =
  message_content :: string
  choice_finish_reason :: string

record response =
  choices :: "choice list"
  usage_total_tokens :: int

text \<open>The dictionary that \<open>generate_blog_content\<close> returns.\<close>

record generated =
  content :: string
  tokens_used :: int
  finish_reason :: string

text \<open>
  The remote API is a collaborator: \<open>provider k\<close> is what the \<open>k\<close>-th request of
  a call (counted from 0) comes back with, an exception or a response.  The request
  itself (the messages built from industry, location, topic and style, and the token
  ceiling) is the same at every attempt of a call, so the provider is given already
  applied to it.
\<close>

type_synonym provider = "nat \<Rightarrow> exn + response"

text \<open>
  What a call does besides returning: the requests it sends, the seconds it passes to
  \<open>time.sleep\<close>, in order, and the lines it logs (the attempt number or the number of
  retries, and \<open>str(e)\<close>).
\<close>

datatype log_entry = Warning nat string | Error nat string

record effects =
  requests :: nat
  sleeps :: "nat list"
  logged :: "log_entry list"

definition no_effects :: effects where
  "no_effects = \<lparr>requests = 0, sleeps = [], logged = []\<rparr>"

record AIService =
  max_retries :: nat
  retry_delay :: nat

text \<open>\<open>AIService.__init__\<close> and the global instance \<open>ai_service = AIService()\<close>.\<close>

definition ai_service :: AIService where
  "ai_service = \<lparr>max_retries = 3, retry_delay = 1\<rparr>"

text \<open>
  The body of the \<open>try\<close> block at one attempt: the request, then the dictionary built
  from the response.  \<open>response.choices[0]\<close> raises \<open>IndexError\<close> on an empty list, and
  that exception is caught by the same handler as a failed request.
\<close>

definition try_attempt :: "provider \<Rightarrow> nat \<Rightarrow> exn + generated" where
  "try_attempt prov attempt =
     (case prov attempt of
        Inl e \<Rightarrow> Inl e
      | Inr response \<Rightarrow>
          (case choices response of
             [] \<Rightarrow> Inl (IndexError ''list index out of range'')
           | c # _ \<Rightarrow>
               Inr \<lparr>content = message_content c,
                    tokens_used = usage_total_tokens response,
                    finish_reason = choice_finish_reason c\<rparr>))"

text \<open>
  The loop \<open>for attempt in range(self.max_retries)\<close>, from \<open>attempt\<close> on.  A success
  returns at once; a failure at the last attempt logs an error and re-raises; any other
  failure logs a warning, sleeps \<open>retry_delay * (attempt + 1)\<close> seconds and goes on.
  A loop that ends without returning makes the Python function return \<open>None\<close>.
\<close>

function generate_loop ::
  "AIService \<Rightarrow> provider \<Rightarrow> nat \<Rightarrow> effects \<Rightarrow> (exn + generated option) \<times> effects" where
  "generate_loop svc prov attempt eff =
     (if attempt < max_retries svc then
        (let eff1 = eff\<lparr>requests := requests eff + 1\<rparr> in
         case try_attempt prov attempt of
           Inr g \<Rightarrow> (Inr (Some g), eff1)
         | Inl e \<Rightarrow>
             if attempt = max_retries svc - 1 then
               (Inl e, eff1\<lparr>logged := logged eff1 @ [Error (max_retries svc) (str_of_exn e)]\<rparr>)
             else
               generate_loop svc prov (attempt + 1)
                 (eff1\<lparr>logged := logged eff1 @ [Warning (attempt + 1) (str_of_exn e)],
                       sleeps := sleeps eff1 @ [retry_delay svc * (attempt + 1)]\<rparr>))
      else (Inr None, eff))"
  by pat_completeness auto
termination
  by (relation "measure (\<lambda>(svc, prov, attempt, eff). max_retries svc - attempt)") auto

declare generate_loop.simps [simp del]

definition generate_blog_content ::
  "AIService \<Rightarrow> provider \<Rightarrow> (exn + generated option) \<times> effects" where
  "generate_blog_content svc prov = generate_loop svc prov 0 no_effects"




section \<open>Location search (app/services/location.py)\<close>

text \<open>
  \<open>s.split(sep)\<close> for a one-character separator, and \<open>sep.join(parts)\<close>.  The list
  that \<open>split\<close> returns is never empty, so the \<open>[0]\<close> that follows it in
  \<open>_get_place_name\<close> cannot raise and is \<open>hd\<close>.
\<close>

fun str_split :: "char \<Rightarrow> string \<Rightarrow> string list" where
  "str_split sep [] = [[]]"
| "str_split sep (c # cs) =
     (if c = sep then [] # str_split sep cs
      else (case str_split sep cs of [] \<Rightarrow> [[c]] | w # ws \<Rightarrow> (c # w) # ws))"

fun str_join :: "string \<Rightarrow> string list \<Rightarrow> string" where
  "str_join sep [] = []"
| "str_join sep [x] = x"
| "str_join sep (x # y # ys) = x @ sep @ str_join sep (y # ys)"

text \<open>
  One result of the geocoding service, as the code reads it: the \<open>address\<close> object
  (absent, or a dictionary of string components; a component that is absent or
  \<open>null\<close> is \<open>None\<close>), the \<open>display_name\<close>, the \<open>type\<close> and the four fields copied
  into the suggestion's metadata.
\<close>

record nominatim_result =
  address :: "(string \<rightharpoonup> string) option"
  display_name :: "string option"
  result_type :: "string option"
  lat :: "string option"
  lon :: "string option"
  osm_type :: "string option"
  osm_class :: "string option"

text \<open>Python's truth value of \<open>d.get(key)\<close>: a string that is there and not empty.\<close>

fun truthy :: "string option \<Rightarrow> bool" where
  "truthy None = False"
| "truthy (Some v) = (v \<noteq> [])"

text \<open>\<open>a or b\<close> on two such values.\<close>

definition py_or :: "string option \<Rightarrow> string option \<Rightarrow> string option" where
  "py_or a b = (if truthy a then a else b)"

text \<open>\<open>result.get("address", {})\<close>.\<close>

definition get_address :: "nominatim_result \<Rightarrow> (string \<rightharpoonup> string)" where
  "get_address result = (case address result of None \<Rightarrow> Map.empty | Some a \<Rightarrow> a)"

text \<open>
  The loop \<open>for key in [...]\<close> of \<open>_get_place_name\<close>: the value of the first key whose
  component is truthy, or \<open>None\<close> when the loop ends without returning.
\<close>

fun place_loop :: "(string \<rightharpoonup> string) \<Rightarrow> string list \<Rightarrow> string option" where
  "place_loop addr [] = None"
| "place_loop addr (key # keys) =
     (if truthy (addr key) then addr key else place_loop addr keys)"

definition place_keys :: "string list" where
  "place_keys = [''city'', ''town'', ''village'', ''suburb'', ''municipality'']"

definition get_place_name :: "nominatim_result \<Rightarrow> string" where
  "get_place_name result =
     (let addr = get_address result in
      case place_loop addr place_keys of
        Some v \<Rightarrow> v
      | None \<Rightarrow>
          hd (str_split CHR '','' (case display_name result of None \<Rightarrow> [] | Some d \<Rightarrow> d)))"

text \<open>
  \<open>if state and state not in parts: parts.append(state)\<close>, the step that
  \<open>_format_full_name\<close> takes for the state and again for the country.
\<close>

definition append_part :: "string option \<Rightarrow> string list \<Rightarrow> string list" where
  "append_part v parts =
     (case v of
        None \<Rightarrow> parts
      | Some s \<Rightarrow> if s \<noteq> [] \<and> s \<notin> set parts then parts @ [s] else parts)"

definition format_full_name :: "nominatim_result \<Rightarrow> string" where
  "format_full_name result =
     (let addr = get_address result;
          place_name = get_place_name result;
          parts = (if place_name \<noteq> [] then [place_name] else []);
          state = py_or (addr ''state'') (addr ''province'');
          parts = append_part state parts;
          country = addr ''country'';
          parts = append_part country parts
      in str_join '', '' parts)"

record suggestion =
  sugg_name :: string
  sugg_full_name :: string
  sugg_type :: string
  sugg_metadata :: "string \<rightharpoonup> string option"

definition make_suggestion :: "nominatim_result \<Rightarrow> suggestion" where
  "make_suggestion result =
     \<lparr>sugg_name = get_place_name result,
      sugg_full_name = format_full_name result,
      sugg_type = (case result_type result of None \<Rightarrow> ''unknown'' | Some t \<Rightarrow> t),
      sugg_metadata = [''lat'' \<mapsto> lat result, ''lon'' \<mapsto> lon result,
                       ''osm_type'' \<mapsto> osm_type result, ''class'' \<mapsto> osm_class result]\<rparr>"

text \<open>
  What the GET request to the geocoding service comes to: the connection fails with an
  \<open>aiohttp.ClientError\<close>, or a response arrives with a status and a body.  Reading the
  body with \<open>response.json()\<close> and mapping it gives either the list of results or the
  exception that a body of another shape raises on the way.
\<close>

datatype http_outcome =
    ConnectionFailed string
  | Responded nat "exn + nominatim_result list"

type_synonym geocoder = "string \<Rightarrow> nat \<Rightarrow> http_outcome"

text \<open>The \<open>try\<close> block of \<open>search_locations\<close>.\<close>

definition search_locations_try ::
  "geocoder \<Rightarrow> string \<Rightarrow> nat \<Rightarrow> exn + suggestion list" where
  "search_locations_try remote query limit =
     (case remote query limit of
        ConnectionFailed m \<Rightarrow> Inl (ClientError m)
      | Responded status body \<Rightarrow>
          if status \<noteq> 200 then Inl (HTTPException 503 ''Geocoding service unavailable'')
          else (case body of
                  Inl e \<Rightarrow> Inl e
                | Inr results \<Rightarrow> Inr (map make_suggestion results)))"

text \<open>
  The two handlers, in their order: \<open>except aiohttp.ClientError\<close> first, then
  \<open>except Exception\<close>, which takes every other exception raised in the block.
\<close>

definition search_locations ::
  "geocoder \<Rightarrow> string \<Rightarrow> nat \<Rightarrow> exn + suggestion list" where
  "search_locations remote query limit =
     (case search_locations_try remote query limit of
        Inr suggestions \<Rightarrow> Inr suggestions
      | Inl (ClientError m) \<Rightarrow>
          Inl (HTTPException 503 ''Error connecting to geocoding service'')
      | Inl e \<Rightarrow> Inl (HTTPException 500 ''Error processing location search''))"

text \<open>The result of the specification's example.\<close>

definition austin :: nominatim_result where
  "austin =
     \<lparr>address = Some [''city'' \<mapsto> ''Austin'', ''state'' \<mapsto> ''Texas'', ''country'' \<mapsto> ''USA''],
      display_name = Some ''Austin, Travis County, Texas, USA'',
      result_type = Some ''city'', lat = None, lon = None, osm_type = None, osm_class = None\<rparr>"

text \<open>
  The specification's reading of the full name, to compare the code with: of the place
  name, the state (or else the province) and the country, in this order, those that are
  not empty, each kept at its first occurrence only, joined with a comma and a space.
  An absent component counts as the empty string.
\<close>

definition component :: "nominatim_result \<Rightarrow> string \<Rightarrow> string" where
  "component result key = (case get_address result key of None \<Rightarrow> [] | Some v \<Rightarrow> v)"

definition state_or_province :: "nominatim_result \<Rightarrow> string" where
  "state_or_province result =
     (if component result ''state'' \<noteq> [] then component result ''state''
      else component result ''province'')"

definition full_name_spec :: "nominatim_result \<Rightarrow> string" where
  "full_name_spec result =
     str_join '', ''
       (rev (remdups (rev (filter (\<lambda>part. part \<noteq> [])
          [get_place_name result, state_or_province result, component result ''country'']))))"

text \<open>
  Two more results: one without an address object, and a city state whose country
  repeats the place name.
\<close>

definition no_address :: nominatim_result where
  "no_address =
     \<lparr>address = None, display_name = Some ''Paris, Ile-de-France, France'',
      result_type = None, lat = None, lon = None, osm_type = None, osm_class = None\<rparr>"

definition singapore :: nominatim_result where
  "singapore =
     \<lparr>address = Some [''city'' \<mapsto> [], ''town'' \<mapsto> ''Singapore'', ''country'' \<mapsto> ''Singapore''],
      display_name = Some ''Singapore'',
      result_type = Some ''city'', lat = None, lon = None, osm_type = None, osm_class = None\<rparr>"

section \<open>The relational store and the session (app/models, app/core/database.py)\<close>

text \<open>
  The three tables, one record per row.  \<open>id\<close>, \<open>created_at\<close> and \<open>updated_at\<close>
  come from \<open>Base\<close> and are set by the store when the row is inserted; a time is a
  number.  A nullable column holds an \<open>option\<close>.
\<close>

record industry =
  industry_id :: nat
  industry_name :: string
  industry_description :: "string option"
  industry_category :: "string option"
  industry_created_at :: nat
  industry_updated_at :: nat

record location =
  location_id :: nat
  location_name :: string
  location_state :: "string option"
  location_country :: string
  location_timezone :: "string option"
  location_metadata :: "string option"
  location_created_at :: nat
  location_updated_at :: nat

record post_metadata =
  meta_finish_reason :: string
  meta_generation_date :: nat

record blog_post =
  post_id :: nat
  post_industry_id :: nat
  post_location_id :: nat
  post_topic :: string
  post_content :: string
  post_style :: string
  post_tokens_used :: "int option"
  post_metadata :: "post_metadata option"
  post_created_at :: nat
  post_updated_at :: nat

text \<open>
  An object that was constructed and given to \<open>db.add\<close> but is not yet flushed: the
  constructor's arguments, in the order of the columns.
\<close>

datatype transient =
    NewIndustry string "string option" "string option"
  | NewLocation string "string option" string "string option" "string option"
  | NewPost nat nat string string string "int option" "post_metadata option"

text \<open>
  The store as one session sees it: the committed rows of each table, in their natural
  order, and the objects of the session that wait for the next flush.  The session is
  made with \<open>autoflush=False\<close>, so a query does not flush them.
\<close>

record database =
  industries :: "industry list"
  locations :: "location list"
  posts :: "blog_post list"
  pending :: "transient list"

text \<open>
  The store and the clock are collaborators.  Every call of the code that reaches the
  store is a call site; \<open>faults env site\<close> is the exception the store raises there, if
  it does, and \<open>clock env site\<close> is what \<open>datetime.utcnow\<close> gives at a flush there.
\<close>

datatype call_site =
    IndustryQuery | IndustryCommit | IndustryRefresh
  | LocationQuery | LocationCommit | LocationRefresh
  | PostCommit | PostRefresh
  | StatsQuery

record environment =
  faults :: "call_site \<Rightarrow> exn option"
  clock :: "call_site \<Rightarrow> nat"

text \<open>The next value of an autoincrement primary key: above every id of the table.\<close>

definition fresh_id :: "nat list \<Rightarrow> nat" where
  "fresh_id ids = Suc (fold max ids 0)"

text \<open>
  The INSERT of one object at time \<open>now\<close>.  \<open>Industry.name\<close> is declared
  \<open>unique=True\<close>, so inserting a name that is already there is an integrity error;
  \<open>Location.name\<close> has no such constraint.
\<close>

fun insert_row :: "nat \<Rightarrow> transient \<Rightarrow> database \<Rightarrow> exn + database" where
  "insert_row now (NewIndustry name description category) db =
     (if name \<in> set (map industry_name (industries db))
      then Inl (IntegrityError ''UNIQUE constraint failed: industry.name'')
      else Inr (db\<lparr>industries := industries db @
             [\<lparr>industry_id = fresh_id (map industry_id (industries db)),
               industry_name = name,
               industry_description = description,
               industry_category = category,
               industry_created_at = now,
               industry_updated_at = now\<rparr>]\<rparr>))"
| "insert_row now (NewLocation name state country timezone metadata) db =
     Inr (db\<lparr>locations := locations db @
             [\<lparr>location_id = fresh_id (map location_id (locations db)),
               location_name = name,
               location_state = state,
               location_country = country,
               location_timezone = timezone,
               location_metadata = metadata,
               location_created_at = now,
               location_updated_at = now\<rparr>]\<rparr>)"
| "insert_row now (NewPost ind loc topic text style tokens metadata) db =
     Inr (db\<lparr>posts := posts db @
             [\<lparr>post_id = fresh_id (map post_id (posts db)),
               post_industry_id = ind,
               post_location_id = loc,
               post_topic = topic,
               post_content = text,
               post_style = style,
               post_tokens_used = tokens,
               post_metadata = metadata,
               post_created_at = now,
               post_updated_at = now\<rparr>]\<rparr>)"

text \<open>The flush: the waiting objects are inserted in the order they were added.\<close>

fun flush :: "nat \<Rightarrow> transient list \<Rightarrow> database \<Rightarrow> exn + database" where
  "flush now [] db = Inr db"
| "flush now (obj # objs) db =
     (case insert_row now obj db of
        Inl e \<Rightarrow> Inl e
      | Inr db' \<Rightarrow> flush now objs db')"

definition db_add :: "transient \<Rightarrow> database \<Rightarrow> database" where
  "db_add obj db = db\<lparr>pending := pending db @ [obj]\<rparr>"

text \<open>
  \<open>db.commit()\<close>: flush and commit.  When the store raises (\<open>fault\<close>) or the flush
  hits a constraint, nothing of the transaction is committed and the exception is
  raised; the objects stay with the session until it is rolled back.
\<close>

definition db_commit :: "exn option \<Rightarrow> nat \<Rightarrow> database \<Rightarrow> (exn + unit) \<times> database" where
  "db_commit fault now db =
     (case fault of
        Some e \<Rightarrow> (Inl e, db)
      | None \<Rightarrow>
          (case flush now (pending db) (db\<lparr>pending := []\<rparr>) of
             Inl e \<Rightarrow> (Inl e, db)
           | Inr db' \<Rightarrow> (Inr (), db')))"


text \<open>
  \<open>db.refresh(obj)\<close> reads the row of the object again by its primary key.  The
  object refreshed in this code is always the one that was added last and just
  committed, whose row is the last of its table.
\<close>

definition db_refresh :: "exn option \<Rightarrow> 'row list \<Rightarrow> exn + 'row" where
  "db_refresh fault table =
     (case fault of
        Some e \<Rightarrow> Inl e
      | None \<Rightarrow>
          (case table of
             [] \<Rightarrow> Inl (InvalidRequestError ''Could not refresh instance'')
           | _ \<Rightarrow> Inr (last table)))"

text \<open>\<open>db.query(Model).filter(Model.name == name).first()\<close>.\<close>

definition query_first :: "exn option \<Rightarrow> ('row \<Rightarrow> bool) \<Rightarrow> 'row list \<Rightarrow> exn + 'row option" where
  "query_first fault cond table =
     (case fault of
        Some e \<Rightarrow> Inl e
      | None \<Rightarrow> Inr (find cond table))"

section \<open>Get-or-create and the post workflow (app/services/blog.py)\<close>

definition get_or_create_industry ::
  "environment \<Rightarrow> database \<Rightarrow> string \<Rightarrow> (exn + industry) \<times> database" where
  "get_or_create_industry env db name =
     (case query_first (faults env IndustryQuery) (\<lambda>row. industry_name row = name) (industries db) of
        Inl e \<Rightarrow> (Inl e, db)
      | Inr (Some industry) \<Rightarrow> (Inr industry, db)
      | Inr None \<Rightarrow>
          (let db1 = db_add (NewIndustry name None None) db in
           case db_commit (faults env IndustryCommit) (clock env IndustryCommit) db1 of
             (Inl e, db2) \<Rightarrow> (Inl e, db2)
           | (Inr _, db2) \<Rightarrow>
               (case db_refresh (faults env IndustryRefresh) (industries db2) of
                  Inl e \<Rightarrow> (Inl e, db2)
                | Inr industry \<Rightarrow> (Inr industry, db2))))"

definition get_or_create_location ::
  "environment \<Rightarrow> database \<Rightarrow> string \<Rightarrow> (exn + location) \<times> database" where
  "get_or_create_location env db name =
     (case query_first (faults env LocationQuery) (\<lambda>row. location_name row = name) (locations db) of
        Inl e \<Rightarrow> (Inl e, db)
      | Inr (Some location) \<Rightarrow> (Inr location, db)
      | Inr None \<Rightarrow>
          (let db1 = db_add (NewLocation name None ''Unknown'' None None) db in
           case db_commit (faults env LocationCommit) (clock env LocationCommit) db1 of
             (Inl e, db2) \<Rightarrow> (Inl e, db2)
           | (Inr _, db2) \<Rightarrow>
               (case db_refresh (faults env LocationRefresh) (locations db2) of
                  Inl e \<Rightarrow> (Inl e, db2)
                | Inr location \<Rightarrow> (Inr location, db2))))"

text \<open>
  The row that a get-or-create inserts for a name that is not there: only the name for
  an industry; the name and the country ``Unknown'' for a location.
\<close>

definition new_industry :: "environment \<Rightarrow> database \<Rightarrow> string \<Rightarrow> industry" where
  "new_industry env db name =
     \<lparr>industry_id = fresh_id (map industry_id (industries db)),
      industry_name = name,
      industry_description = None,
      industry_category = None,
      industry_created_at = clock env IndustryCommit,
      industry_updated_at = clock env IndustryCommit\<rparr>"

definition new_location :: "environment \<Rightarrow> database \<Rightarrow> string \<Rightarrow> location" where
  "new_location env db name =
     \<lparr>location_id = fresh_id (map location_id (locations db)),
      location_name = name,
      location_state = None,
      location_country = ''Unknown'',
      location_timezone = None,
      location_metadata = None,
      location_created_at = clock env LocationCommit,
      location_updated_at = clock env LocationCommit\<rparr>"

text \<open>
  The \<open>try\<close> block of \<open>create_blog_post\<close>.  An exception is returned together with
  the step of the block that raised it; the tag is bookkeeping for the theorems and the
  handler does not look at it.  \<open>ind_name\<close> and \<open>loc_name\<close> are the parameters
  \<open>industry_name\<close> and \<open>location_name\<close>.  The style is the one the caller passes
  (``professional'' when it passes none).  \<open>generated["content"]\<close> on a \<open>None\<close>
  result would be a \<open>TypeError\<close>.
\<close>

datatype step = IndustryUpsert | LocationUpsert | ContentGeneration | PostInsert | PostReload

definition create_blog_post_try ::
  "environment \<Rightarrow> provider \<Rightarrow> database \<Rightarrow> string \<Rightarrow> string \<Rightarrow> string \<Rightarrow> string \<Rightarrow>
   ((step \<times> exn) + blog_post) \<times> database \<times> effects" where
  "create_blog_post_try env prov db ind_name loc_name topic style =
     (case get_or_create_industry env db ind_name of
        (Inl e, db1) \<Rightarrow> (Inl (IndustryUpsert, e), db1, no_effects)
      | (Inr industry, db1) \<Rightarrow>
     (case get_or_create_location env db1 loc_name of
        (Inl e, db2) \<Rightarrow> (Inl (LocationUpsert, e), db2, no_effects)
      | (Inr location, db2) \<Rightarrow>
     (case generate_blog_content ai_service prov of
        (Inl e, eff) \<Rightarrow> (Inl (ContentGeneration, e), db2, eff)
      | (Inr None, eff) \<Rightarrow>
          (Inl (ContentGeneration, TypeError ''NoneType object is not subscriptable''), db2, eff)
      | (Inr (Some g), eff) \<Rightarrow>
          (let blog_post =
                 NewPost (industry_id industry) (location_id location) topic (content g) style
                   (Some (tokens_used g))
                   (Some \<lparr>meta_finish_reason = finish_reason g,
                          meta_generation_date = clock env PostCommit\<rparr>);
               db3 = db_add blog_post db2
           in case db_commit (faults env PostCommit) (clock env PostCommit) db3 of
                (Inl e, db4) \<Rightarrow> (Inl (PostInsert, e), db4, eff)
              | (Inr _, db4) \<Rightarrow>
                  (case db_refresh (faults env PostRefresh) (posts db4) of
                     Inl e \<Rightarrow> (Inl (PostReload, e), db4, eff)
                   | Inr post \<Rightarrow> (Inr post, db4, eff))))))"


text \<open>An empty store with a clean session, and a world in which the store never fails.\<close>

definition empty_db :: database where
  "empty_db = \<lparr>industries = [], locations = [], posts = [], pending = []\<rparr>"

definition calm :: environment where
  "calm = \<lparr>faults = (\<lambda>site. None), clock = (\<lambda>site. 1000)\<rparr>"

section \<open>The generic list and count operations (app/services/base.py)\<close>

text \<open>
  \<open>BaseService\<close> is generic in the model class and reaches its attributes by name, so a
  row is a dictionary from column names to values here, and a model class is what
  \<open>hasattr\<close> and \<open>getattr\<close> see of it: for each attribute name the kind of thing it is,
  a mapped column, a relationship, or anything else (a method, a property, a class
  attribute).  A name that is not an attribute is \<open>None\<close>.
\<close>

datatype sql_value = SqlNull | SqlInt int | SqlStr string | SqlBool bool

type_synonym row = "string \<rightharpoonup> sql_value"

datatype attribute = Column | Relationship | Plain

type_synonym model = "string \<rightharpoonup> attribute"

definition column_value :: "row \<Rightarrow> string \<Rightarrow> sql_value" where
  "column_value r c = (case r c of None \<Rightarrow> SqlNull | Some v \<Rightarrow> v)"

text \<open>
  The loop \<open>for field, value in filters.items()\<close>: the query is the list of the
  conditions added so far.  For a column, \<open>getattr(self.model, field) == value\<close> is the
  condition that the column equals the value (\<open>IS NULL\<close> for \<open>None\<close>).  For a
  relationship the comparison with a plain value raises an error of SQLAlchemy.  For any
  other attribute \<open>==\<close> is Python's own and gives \<open>False\<close>, a condition that no row
  meets.  A field that the model has no attribute for adds nothing.
\<close>

fun apply_filters ::
  "model \<Rightarrow> (string \<times> sql_value) list \<Rightarrow> (row \<Rightarrow> bool) list \<Rightarrow> exn + (row \<Rightarrow> bool) list" where
  "apply_filters m [] query = Inr query"
| "apply_filters m ((field, v) # rest) query =
     (case m field of
        None \<Rightarrow> apply_filters m rest query
      | Some Column \<Rightarrow> apply_filters m rest (query @ [\<lambda>r. column_value r field = v])
      | Some Relationship \<Rightarrow>
          Inl (SQLAlchemyError ''Mapped instance expected for relationship comparison'')
      | Some Plain \<Rightarrow> apply_filters m rest (query @ [\<lambda>r. False]))"

text \<open>
  \<open>query = db.query(self.model)\<close> followed by \<open>if filters:\<close> and the loop.  \<open>filters\<close>
  is \<open>None\<close> or a dictionary, given by its items in order; \<open>None\<close> and the empty
  dictionary are both false.
\<close>

definition build_query ::
  "model \<Rightarrow> (string \<times> sql_value) list option \<Rightarrow> exn + (row \<Rightarrow> bool) list" where
  "build_query m filters =
     (case filters of
        None \<Rightarrow> Inr []
      | Some items \<Rightarrow> if items = [] then Inr [] else apply_filters m items [])"

text \<open>The rows of the table that meet every condition of the query, in table order.\<close>

definition matching :: "(row \<Rightarrow> bool) list \<Rightarrow> row list \<Rightarrow> row list" where
  "matching query table = filter (\<lambda>r. list_all (\<lambda>cond. cond r) query) table"

text \<open>
  The handler \<open>except SQLAlchemyError\<close> of both operations: an error of SQLAlchemy
  (the class or a subclass of it) becomes status 500, any other exception passes.
\<close>

fun is_sqlalchemy_error :: "exn \<Rightarrow> bool" where
  "is_sqlalchemy_error (SQLAlchemyError m) = True"
| "is_sqlalchemy_error (IntegrityError m) = True"
| "is_sqlalchemy_error (InvalidRequestError m) = True"
| "is_sqlalchemy_error e = False"

definition database_error :: "exn + 'a \<Rightarrow> exn + 'a" where
  "database_error result =
     (case result of
        Inr x \<Rightarrow> Inr x
      | Inl e \<Rightarrow> if is_sqlalchemy_error e then Inl (HTTPException 500 ''Database error occurred'')
                 else Inl e)"

text \<open>
  \<open>get_multi\<close> and \<open>count\<close> on a table; \<open>fault\<close> is the exception the store raises
  when the query is executed, if it does.
\<close>

definition get_multi ::
  "model \<Rightarrow> exn option \<Rightarrow> row list \<Rightarrow> nat \<Rightarrow> nat \<Rightarrow> (string \<times> sql_value) list option \<Rightarrow>
   exn + row list" where
  "get_multi m fault table skip limit filters =
     database_error
       (case build_query m filters of
          Inl e \<Rightarrow> Inl e
        | Inr query \<Rightarrow>
            (case fault of
               Some e \<Rightarrow> Inl e
             | None \<Rightarrow> Inr (take limit (drop skip (matching query table)))))"

definition count ::
  "model \<Rightarrow> exn option \<Rightarrow> row list \<Rightarrow> (string \<times> sql_value) list option \<Rightarrow> exn + nat" where
  "count m fault table filters =
     database_error
       (case build_query m filters of
          Inl e \<Rightarrow> Inl e
        | Inr query \<Rightarrow>
            (case fault of
               Some e \<Rightarrow> Inl e
             | None \<Rightarrow> Inr (length (matching query table))))"

text \<open>
  The attributes of \<open>Industry\<close> that matter below, and three of its rows as
  dictionaries.
\<close>

definition industry_model :: model where
  "industry_model =
     [''id'' \<mapsto> Column, ''created_at'' \<mapsto> Column, ''updated_at'' \<mapsto> Column,
      ''name'' \<mapsto> Column, ''description'' \<mapsto> Column, ''category'' \<mapsto> Column,
      ''posts'' \<mapsto> Relationship, ''dict'' \<mapsto> Plain, ''update'' \<mapsto> Plain,
      ''from_dict'' \<mapsto> Plain]"

definition industry_rows :: "row list" where
  "industry_rows =
     [[''id'' \<mapsto> SqlInt 1, ''name'' \<mapsto> SqlStr ''Bakery'', ''category'' \<mapsto> SqlStr ''other''],
      [''id'' \<mapsto> SqlInt 2, ''name'' \<mapsto> SqlStr ''Web Studio'', ''category'' \<mapsto> SqlStr ''technology''],
      [''id'' \<mapsto> SqlInt 3, ''name'' \<mapsto> SqlStr ''Pharmacy'', ''category'' \<mapsto> SqlStr ''healthcare'']]"

section \<open>Numbers, token counting (app/core/ai.py) and statistics (app/services/blog.py)\<close>


text \<open>
  \<open>text.split()\<close> without arguments: the maximal runs of characters that are not
  whitespace, in order; no empty strings.  The whitespace characters below 256 are tab
  to carriage return (9-13), the separators 28-31, the space, and 133 and 160.
\<close>

definition is_space :: "char \<Rightarrow> bool" where
  "is_space c =
     (let n = (of_char c :: nat)
      in (9 \<le> n \<and> n \<le> 13) \<or> (28 \<le> n \<and> n \<le> 32) \<or> n = 133 \<or> n = 160)"

fun split_loop :: "string \<Rightarrow> string \<Rightarrow> string list" where
  "split_loop word [] = (if word = [] then [] else [word])"
| "split_loop word (c # cs) =
     (if is_space c then (if word = [] then split_loop [] cs else word # split_loop [] cs)
      else split_loop (word @ [c]) cs)"

definition str_split_ws :: "string \<Rightarrow> string list" where
  "str_split_ws s = split_loop [] s"




















section \<open>Properties of the retry loop\<close>






section \<open>Properties of the categorization\<close>

lemma str_contains_sublist: "str_contains needle hay \<longleftrightarrow> sublist needle hay"
  by (induction hay) (auto simp: sublist_Cons_right)

lemma list_ex_str_contains:
  "list_ex (\<lambda>keyword. str_contains keyword s) kws \<longleftrightarrow> (\<exists>kw \<in> set kws. sublist kw s)"
  by (simp add: list_ex_iff str_contains_sublist)

lemma categorize_loop_none:
  "\<forall>p \<in> set cs. \<forall>kw \<in> set (snd p). \<not> sublist kw s \<Longrightarrow> categorize_loop cs s = ''other''"
  by (induction cs s rule: categorize_loop.induct) (auto simp: list_ex_str_contains)

lemma categorize_loop_first:
  "i < length cs \<Longrightarrow> \<exists>kw \<in> set (snd (cs ! i)). sublist kw s \<Longrightarrow>
   \<forall>p \<in> set (take i cs). \<forall>kw \<in> set (snd p). \<not> sublist kw s \<Longrightarrow>
   categorize_loop cs s = fst (cs ! i)"
proof (induction cs s arbitrary: i rule: categorize_loop.induct)
  case (1 name_lower)
  then show ?case by simp
next
  case (2 category kws rest name_lower)
  show ?case
  proof (cases i)
    case 0
    with "2.prems" show ?thesis by (simp add: list_ex_str_contains)
  next
    case (Suc k)
    with "2.prems" have no: "\<not> list_ex (\<lambda>keyword. str_contains keyword name_lower) kws"
      by (simp add: list_ex_str_contains)
    from Suc "2.prems" have "categorize_loop rest name_lower = fst (rest ! k)"
      by (intro "2.IH" [OF no]) simp_all
    with no Suc show ?thesis by simp
  qed
qed

text \<open>
  C2.  The three names of the specification's example.  ``Web Development Studio''
  contains the technology keyword ``web development'' and ``Lemonade Stand'' contains
  no keyword at all.  ``Family Dentistry'' does not contain the healthcare keyword
  ``dental'' (nor any other keyword), so it is not categorized as healthcare.
\<close>

theorem categorize_examples_counterexample:
  "\<not> (categorize_industry ''Web Development Studio'' = ''technology'' \<and>
      categorize_industry ''Family Dentistry'' = ''healthcare'' \<and>
      categorize_industry ''Lemonade Stand'' = ''other'')"
  by code_simp

text \<open>
  C2, as the code has it: ``Web Development Studio'' is categorized as technology,
  ``Family Dentistry'' as other and ``Lemonade Stand'' as other.
\<close>

theorem categorize_examples:
  "categorize_industry ''Web Development Studio'' = ''technology'' \<and>
   categorize_industry ''Family Dentistry'' = ''other'' \<and>
   categorize_industry ''Lemonade Stand'' = ''other''"
  by code_simp

text \<open>
  C7.  The categories are tried in the order technology, healthcare, retail, services,
  hospitality.  The result for a name is the tag of the first category one of whose
  keywords occurs as a contiguous substring of the lower-cased name: the category at
  position \<open>i\<close>, when it has such a keyword and no category before it has one.  When
  no keyword of any category occurs in the lower-cased name the result is ``other''.
\<close>

theorem categorize_industry_first_match:
  "map fst categories = [''technology'', ''healthcare'', ''retail'', ''services'', ''hospitality''] \<and>
   (i < length categories \<and>
    (\<exists>kw \<in> set (snd (categories ! i)). sublist kw (str_lower name)) \<and>
    (\<forall>p \<in> set (take i categories). \<forall>kw \<in> set (snd p). \<not> sublist kw (str_lower name))
      \<longrightarrow> categorize_industry name = fst (categories ! i)) \<and>
   ((\<forall>p \<in> set categories. \<forall>kw \<in> set (snd p). \<not> sublist kw (str_lower name))
      \<longrightarrow> categorize_industry name = ''other'')"
proof (intro conjI impI)
  show "map fst categories = [''technology'', ''healthcare'', ''retail'', ''services'', ''hospitality'']"
    by (simp add: categories_def)
next
  assume "i < length categories \<and>
    (\<exists>kw \<in> set (snd (categories ! i)). sublist kw (str_lower name)) \<and>
    (\<forall>p \<in> set (take i categories). \<forall>kw \<in> set (snd p). \<not> sublist kw (str_lower name))"
  then show "categorize_industry name = fst (categories ! i)"
    unfolding categorize_industry_def Let_def by (intro categorize_loop_first) blast+
next
  assume "\<forall>p \<in> set categories. \<forall>kw \<in> set (snd p). \<not> sublist kw (str_lower name)"
  then show "categorize_industry name = ''other''"
    unfolding categorize_industry_def Let_def by (rule categorize_loop_none)
qed

text \<open>
  The theorem at two names.  ``Dental Fashion Hotels'' has keywords of healthcare
  (position 1), retail and hospitality and none of technology: healthcare, the first of
  them, is returned.  ``Lemonade Stand'' has no keyword.
\<close>

theorem categorize_industry_first_match_witness:
  "(1 < length categories \<and>
    (\<exists>kw \<in> set (snd (categories ! 1)). sublist kw (str_lower ''Dental Fashion Hotels'')) \<and>
    \<not> (\<exists>p \<in> set (take 1 categories). \<exists>kw \<in> set (snd p). sublist kw (str_lower ''Dental Fashion Hotels'')) \<and>
    categorize_industry ''Dental Fashion Hotels'' = ''healthcare'') \<and>
   (\<not> (\<exists>p \<in> set categories. \<exists>kw \<in> set (snd p). sublist kw (str_lower ''Lemonade Stand'')) \<and>
    categorize_industry ''Lemonade Stand'' = ''other'')"
proof -
  have h1: "1 < length categories \<and>
    (\<exists>kw \<in> set (snd (categories ! 1)). sublist kw (str_lower ''Dental Fashion Hotels'')) \<and>
    (\<forall>p \<in> set (take 1 categories). \<forall>kw \<in> set (snd p). \<not> sublist kw (str_lower ''Dental Fashion Hotels''))"
    by code_simp
  have h2: "\<forall>p \<in> set categories. \<forall>kw \<in> set (snd p). \<not> sublist kw (str_lower ''Lemonade Stand'')"
    by code_simp
  have t: "fst (categories ! 1) = ''healthcare''"
    by (simp add: categories_def)
  from categorize_industry_first_match [of 1 "''Dental Fashion Hotels''"] h1 t
  have c1: "categorize_industry ''Dental Fashion Hotels'' = ''healthcare''" by simp
  from categorize_industry_first_match [of 0 "''Lemonade Stand''"] h2
  have c2: "categorize_industry ''Lemonade Stand'' = ''other''" by blast
  from h1 h2 c1 c2 show ?thesis by blast
qed

section \<open>Properties of the location search\<close>

lemma str_split_nonempty: "str_split sep s \<noteq> []"
  by (induction s) (auto split: list.splits)

lemma str_split_hd: "hd (str_split sep s) = takeWhile (\<lambda>c. c \<noteq> sep) s"
  using str_split_nonempty [of sep "tl s"]
  by (induction s) (auto split: list.splits simp: str_split_nonempty)

text \<open>Joining what \<open>split\<close> returns with the separator gives the string back.\<close>

lemma str_join_split: "str_join [sep] (str_split sep s) = s"
proof (induction s)
  case Nil
  then show ?case by simp
next
  case (Cons c cs)
  obtain w ws where w: "str_split sep cs = w # ws"
    using str_split_nonempty [of sep cs] by (cases "str_split sep cs") auto
  with Cons show ?case by (cases ws) auto
qed

lemma place_loop_none:
  "\<forall>key \<in> set keys. \<not> truthy (addr key) \<Longrightarrow> place_loop addr keys = None"
  by (induction keys) auto

lemma place_loop_first:
  "i < length keys \<Longrightarrow> truthy (addr (keys ! i)) \<Longrightarrow>
   \<forall>key \<in> set (take i keys). \<not> truthy (addr key) \<Longrightarrow>
   place_loop addr keys = addr (keys ! i)"
proof (induction keys arbitrary: i)
  case Nil
  then show ?case by simp
next
  case (Cons key keys)
  then show ?case by (cases i) auto
qed

lemma format_full_name_spec: "format_full_name r = full_name_spec r"
  by (cases "get_address r ''state''"; cases "get_address r ''province''";
      cases "get_address r ''country''")
     (auto simp: format_full_name_def full_name_spec_def state_or_province_def component_def
        append_part_def py_or_def Let_def)

text \<open>
  C8.  The name of a suggestion is the place name of its result and its full name the
  formatted full name.  The place name is the address component of the first key among
  city, town, village, suburb, municipality whose component is there and not empty (the
  key at position \<open>i\<close> of that list, when no key before it has one); when no key has
  one, it is the display name up to its first comma.  The full name joins the place
  name, the state or else the province, and the country with a comma and a space,
  leaving out an empty part and a part equal to one already taken.  The result with city
  Austin, state Texas and country USA gives the name ``Austin'' and the full name
  ``Austin, Texas, USA''.
\<close>

theorem suggestion_name_and_full_name:
  "sugg_name (make_suggestion r) = get_place_name r \<and>
   sugg_full_name (make_suggestion r) = format_full_name r \<and>
   place_keys = [''city'', ''town'', ''village'', ''suburb'', ''municipality''] \<and>
   (i < length place_keys \<and> truthy (get_address r (place_keys ! i)) \<and>
    (\<forall>key \<in> set (take i place_keys). \<not> truthy (get_address r key))
      \<longrightarrow> get_place_name r = component r (place_keys ! i)) \<and>
   ((\<forall>key \<in> set place_keys. \<not> truthy (get_address r key))
      \<longrightarrow> get_place_name r =
            takeWhile (\<lambda>c. c \<noteq> CHR '','') (case display_name r of None \<Rightarrow> [] | Some d \<Rightarrow> d)) \<and>
   format_full_name r = full_name_spec r \<and>
   sugg_name (make_suggestion austin) = ''Austin'' \<and>
   sugg_full_name (make_suggestion austin) = ''Austin, Texas, USA''"
proof (intro conjI impI)
  show "sugg_name (make_suggestion r) = get_place_name r"
    and "sugg_full_name (make_suggestion r) = format_full_name r"
    by (simp_all add: make_suggestion_def)
next
  show "place_keys = [''city'', ''town'', ''village'', ''suburb'', ''municipality'']"
    by (simp add: place_keys_def)
next
  assume h: "i < length place_keys \<and> truthy (get_address r (place_keys ! i)) \<and>
    (\<forall>key \<in> set (take i place_keys). \<not> truthy (get_address r key))"
  then have "place_loop (get_address r) place_keys = get_address r (place_keys ! i)"
    by (intro place_loop_first) blast+
  moreover from h obtain v where "get_address r (place_keys ! i) = Some v"
    by (cases "get_address r (place_keys ! i)") auto
  ultimately show "get_place_name r = component r (place_keys ! i)"
    by (simp add: get_place_name_def component_def)
next
  assume "\<forall>key \<in> set place_keys. \<not> truthy (get_address r key)"
  then have "place_loop (get_address r) place_keys = None"
    by (rule place_loop_none)
  then show "get_place_name r =
      takeWhile (\<lambda>c. c \<noteq> CHR '','') (case display_name r of None \<Rightarrow> [] | Some d \<Rightarrow> d)"
    by (simp add: get_place_name_def str_split_hd)
next
  show "format_full_name r = full_name_spec r"
    by (rule format_full_name_spec)
next
  show "sugg_name (make_suggestion austin) = ''Austin''"
    by (simp add: make_suggestion_def get_place_name_def austin_def get_address_def
        place_keys_def)
next
  show "sugg_full_name (make_suggestion austin) = ''Austin, Texas, USA''"
    by (simp add: make_suggestion_def format_full_name_def get_place_name_def austin_def
        get_address_def place_keys_def py_or_def append_part_def)
qed

text \<open>
  The theorem at three results: the city is taken first; a town is taken when the city
  is empty, and a country equal to the place name is not repeated; without an address
  the display name's first segment is the name.
\<close>

theorem suggestion_name_and_full_name_witness:
  "truthy (get_address austin (place_keys ! 0)) \<and>
   get_place_name austin = ''Austin'' \<and>
   \<not> truthy (get_address singapore (place_keys ! 0)) \<and>
   truthy (get_address singapore (place_keys ! 1)) \<and>
   get_place_name singapore = ''Singapore'' \<and>
   format_full_name singapore = ''Singapore'' \<and>
   \<not> (\<exists>key \<in> set place_keys. truthy (get_address no_address key)) \<and>
   get_place_name no_address = ''Paris'' \<and>
   format_full_name no_address = ''Paris''"
proof -
  have a: "0 < length place_keys \<and> truthy (get_address austin (place_keys ! 0)) \<and>
      (\<forall>key \<in> set (take 0 place_keys). \<not> truthy (get_address austin key))"
    by (simp add: place_keys_def austin_def get_address_def)
  have a': "component austin (place_keys ! 0) = ''Austin''"
    by (simp add: place_keys_def austin_def get_address_def component_def)
  have s: "1 < length place_keys \<and> truthy (get_address singapore (place_keys ! 1)) \<and>
      (\<forall>key \<in> set (take 1 place_keys). \<not> truthy (get_address singapore key))"
    by (simp add: place_keys_def singapore_def get_address_def)
  have s': "component singapore (place_keys ! 1) = ''Singapore''"
    by (simp add: place_keys_def singapore_def get_address_def component_def)
  have n: "\<forall>key \<in> set place_keys. \<not> truthy (get_address no_address key)"
    by (simp add: place_keys_def no_address_def get_address_def)
  have n': "takeWhile (\<lambda>c. c \<noteq> CHR '','')
      (case display_name no_address of None \<Rightarrow> [] | Some d \<Rightarrow> d) = ''Paris''"
    by (simp add: no_address_def)
  from suggestion_name_and_full_name [of austin 0] a a'
  have 1: "get_place_name austin = ''Austin''" by simp
  from suggestion_name_and_full_name [of singapore 1] s s'
  have 2: "get_place_name singapore = ''Singapore''" by simp
  from suggestion_name_and_full_name [of no_address 0] n n'
  have 3: "get_place_name no_address = ''Paris''" by simp
  have "full_name_spec singapore = ''Singapore''"
    using 2 by (simp add: full_name_spec_def state_or_province_def component_def
        singapore_def get_address_def)
  with suggestion_name_and_full_name [of singapore 1]
  have 4: "format_full_name singapore = ''Singapore''" by simp
  have "full_name_spec no_address = ''Paris''"
    using 3 by (simp add: full_name_spec_def state_or_province_def component_def
        no_address_def get_address_def)
  with suggestion_name_and_full_name [of no_address 0]
  have 5: "format_full_name no_address = ''Paris''" by simp
  from a s n 1 2 3 4 5 show ?thesis
    by (simp add: place_keys_def singapore_def get_address_def)
qed

text \<open>
  What \<open>search_locations\<close> raises.  A failed connection is a \<open>ClientError\<close> and gives
  status 503.  An exception of another class raised while the body is read gives status
  500.  A response whose status is not 200 makes the \<open>try\<close> block raise an
  \<open>HTTPException\<close> with status 503, but that exception is not a \<open>ClientError\<close>: the
  handler for \<open>Exception\<close> takes it and raises status 500 in its place.
\<close>

lemma search_locations_connection_failed:
  "remote query limit = ConnectionFailed m \<Longrightarrow>
   search_locations remote query limit =
     Inl (HTTPException 503 ''Error connecting to geocoding service'')"
  by (simp add: search_locations_def search_locations_try_def)

lemma search_locations_malformed:
  "remote query limit = Responded 200 (Inl e) \<Longrightarrow> \<forall>m. e \<noteq> ClientError m \<Longrightarrow>
   search_locations remote query limit =
     Inl (HTTPException 500 ''Error processing location search'')"
  by (cases e) (simp_all add: search_locations_def search_locations_try_def)

lemma search_locations_try_status:
  "remote query limit = Responded status body \<Longrightarrow> status \<noteq> 200 \<Longrightarrow>
   search_locations_try remote query limit =
     Inl (HTTPException 503 ''Geocoding service unavailable'')"
  by (simp add: search_locations_try_def)

lemma search_locations_status:
  "remote query limit = Responded status body \<Longrightarrow> status \<noteq> 200 \<Longrightarrow>
   search_locations remote query limit =
     Inl (HTTPException 500 ''Error processing location search'')"
  by (simp add: search_locations_def search_locations_try_def)

text \<open>
  C6.  The specification asks for a ``service unavailable'' failure (status 503) when
  the geocoding service answers with a status that is not a success.  At a response
  with status 500, whatever its body, \<open>search_locations\<close> raises the generic
  processing error with status 500 instead.
\<close>

theorem search_locations_status_500:
  "search_locations (\<lambda>query limit. Responded 500 body) ''Austin'' 5 =
     Inl (HTTPException 500 ''Error processing location search'')"
  by (simp add: search_locations_def search_locations_try_def)

section \<open>Properties of get-or-create and of the post workflow\<close>

lemma find_append_new:
  "find P xs = None \<Longrightarrow> P x \<Longrightarrow> find P (xs @ [x]) = Some x"
  by (induction xs) (auto split: if_splits)

lemma db_refresh_nonempty: "table \<noteq> [] \<Longrightarrow> db_refresh None table = Inr (last table)"
  by (cases table) (simp_all add: db_refresh_def)

lemma db_refresh_snoc: "db_refresh None (xs @ [x]) = Inr x"
  by (simp add: db_refresh_nonempty)

lemma db_refresh_in_table: "db_refresh fault table = Inr row \<Longrightarrow> row \<in> set table"
  by (cases table) (auto simp: db_refresh_def split: option.splits if_splits)

lemma get_or_create_industry_new:
  assumes "faults env IndustryQuery = None" "faults env IndustryCommit = None"
    "faults env IndustryRefresh = None" "pending db = []"
    "\<forall>row \<in> set (industries db). industry_name row \<noteq> name"
  shows "get_or_create_industry env db name =
    (Inr (new_industry env db name), db\<lparr>industries := industries db @ [new_industry env db name]\<rparr>)"
proof -
  from assms(5) have f: "find (\<lambda>row. industry_name row = name) (industries db) = None"
    by (simp add: find_None_iff)
  from assms(5) have n: "name \<notin> industry_name ` set (industries db)" by auto
  from assms(4) have p: "db\<lparr>pending := []\<rparr> = db" by simp
  show ?thesis
    using assms(1-4) f n
    by (simp add: get_or_create_industry_def query_first_def db_add_def db_commit_def
        db_refresh_snoc new_industry_def Let_def p)
qed

lemma get_or_create_industry_existing:
  assumes "faults env IndustryQuery = None"
    "find (\<lambda>row. industry_name row = name) (industries db) = Some row"
  shows "get_or_create_industry env db name = (Inr row, db)"
  using assms by (simp add: get_or_create_industry_def query_first_def)

lemma get_or_create_location_new:
  assumes "faults env LocationQuery = None" "faults env LocationCommit = None"
    "faults env LocationRefresh = None" "pending db = []"
    "\<forall>row \<in> set (locations db). location_name row \<noteq> name"
  shows "get_or_create_location env db name =
    (Inr (new_location env db name), db\<lparr>locations := locations db @ [new_location env db name]\<rparr>)"
proof -
  from assms(5) have f: "find (\<lambda>row. location_name row = name) (locations db) = None"
    by (simp add: find_None_iff)
  from assms(4) have p: "db\<lparr>pending := []\<rparr> = db" by simp
  show ?thesis
    using assms(1-4) f
    by (simp add: get_or_create_location_def query_first_def db_add_def db_commit_def
        db_refresh_snoc new_location_def Let_def p)
qed

lemma get_or_create_location_existing:
  assumes "faults env LocationQuery = None"
    "find (\<lambda>row. location_name row = name) (locations db) = Some row"
  shows "get_or_create_location env db name = (Inr row, db)"
  using assms by (simp add: get_or_create_location_def query_first_def)

text \<open>
  C4.  In a store that answers, on a session with nothing in flight: for a name that no
  row of the table has, \<open>_get_or_create_industry\<close> appends exactly one row to the
  industries, with that name and no description or category, and returns it; a second
  call with the same name, made on the store the first call left, returns the same row
  and leaves the store as it is.  The same holds of \<open>_get_or_create_location\<close>, whose
  new row has that name, the country ``Unknown'' and no state, timezone or metadata.
\<close>

theorem get_or_create_idempotent:
  "(faults env IndustryQuery = None \<and> faults env IndustryCommit = None \<and>
    faults env IndustryRefresh = None \<and> faults env' IndustryQuery = None \<and>
    pending db = [] \<and> (\<forall>row \<in> set (industries db). industry_name row \<noteq> name) \<longrightarrow>
      (let row = new_industry env db name; db1 = db\<lparr>industries := industries db @ [row]\<rparr>
       in get_or_create_industry env db name = (Inr row, db1) \<and>
          industry_name row = name \<and> industry_description row = None \<and>
          industry_category row = None \<and>
          get_or_create_industry env' db1 name = (Inr row, db1))) \<and>
   (faults env LocationQuery = None \<and> faults env LocationCommit = None \<and>
    faults env LocationRefresh = None \<and> faults env' LocationQuery = None \<and>
    pending db = [] \<and> (\<forall>row \<in> set (locations db). location_name row \<noteq> name) \<longrightarrow>
      (let row = new_location env db name; db1 = db\<lparr>locations := locations db @ [row]\<rparr>
       in get_or_create_location env db name = (Inr row, db1) \<and>
          location_name row = name \<and> location_country row = ''Unknown'' \<and>
          location_state row = None \<and> location_timezone row = None \<and>
          location_metadata row = None \<and>
          get_or_create_location env' db1 name = (Inr row, db1)))"
proof (intro conjI impI)
  assume h: "faults env IndustryQuery = None \<and> faults env IndustryCommit = None \<and>
    faults env IndustryRefresh = None \<and> faults env' IndustryQuery = None \<and>
    pending db = [] \<and> (\<forall>row \<in> set (industries db). industry_name row \<noteq> name)"
  let ?row = "new_industry env db name"
  let ?db1 = "db\<lparr>industries := industries db @ [?row]\<rparr>"
  from h have first: "get_or_create_industry env db name = (Inr ?row, ?db1)"
    by (intro get_or_create_industry_new) simp_all
  have nm: "industry_name ?row = name" by (simp add: new_industry_def)
  from h have "find (\<lambda>row. industry_name row = name) (industries db) = None"
    by (simp add: find_None_iff)
  then have "find (\<lambda>row. industry_name row = name) (industries ?db1) = Some ?row"
    using nm by (simp add: find_append_new)
  with h have second: "get_or_create_industry env' ?db1 name = (Inr ?row, ?db1)"
    by (intro get_or_create_industry_existing) simp_all
  from first second nm
  show "let row = new_industry env db name; db1 = db\<lparr>industries := industries db @ [row]\<rparr>
       in get_or_create_industry env db name = (Inr row, db1) \<and>
          industry_name row = name \<and> industry_description row = None \<and>
          industry_category row = None \<and>
          get_or_create_industry env' db1 name = (Inr row, db1)"
    by (simp add: Let_def new_industry_def)
next
  assume h: "faults env LocationQuery = None \<and> faults env LocationCommit = None \<and>
    faults env LocationRefresh = None \<and> faults env' LocationQuery = None \<and>
    pending db = [] \<and> (\<forall>row \<in> set (locations db). location_name row \<noteq> name)"
  let ?row = "new_location env db name"
  let ?db1 = "db\<lparr>locations := locations db @ [?row]\<rparr>"
  from h have first: "get_or_create_location env db name = (Inr ?row, ?db1)"
    by (intro get_or_create_location_new) simp_all
  have nm: "location_name ?row = name" by (simp add: new_location_def)
  from h have "find (\<lambda>row. location_name row = name) (locations db) = None"
    by (simp add: find_None_iff)
  then have "find (\<lambda>row. location_name row = name) (locations ?db1) = Some ?row"
    using nm by (simp add: find_append_new)
  with h have second: "get_or_create_location env' ?db1 name = (Inr ?row, ?db1)"
    by (intro get_or_create_location_existing) simp_all
  from first second nm
  show "let row = new_location env db name; db1 = db\<lparr>locations := locations db @ [row]\<rparr>
       in get_or_create_location env db name = (Inr row, db1) \<and>
          location_name row = name \<and> location_country row = ''Unknown'' \<and>
          location_state row = None \<and> location_timezone row = None \<and>
          location_metadata row = None \<and>
          get_or_create_location env' db1 name = (Inr row, db1)"
    by (simp add: Let_def new_location_def)
qed

text \<open>The theorem on the empty store: ``Bakery'' and ``Austin'' are created once.\<close>

theorem get_or_create_idempotent_witness:
  "get_or_create_industry calm empty_db ''Bakery'' =
     (Inr (new_industry calm empty_db ''Bakery''),
      empty_db\<lparr>industries := [new_industry calm empty_db ''Bakery'']\<rparr>) \<and>
   get_or_create_industry calm (empty_db\<lparr>industries := [new_industry calm empty_db ''Bakery'']\<rparr>)
       ''Bakery'' =
     (Inr (new_industry calm empty_db ''Bakery''),
      empty_db\<lparr>industries := [new_industry calm empty_db ''Bakery'']\<rparr>) \<and>
   industry_id (new_industry calm empty_db ''Bakery'') = 1 \<and>
   get_or_create_location calm empty_db ''Austin'' =
     (Inr (new_location calm empty_db ''Austin''),
      empty_db\<lparr>locations := [new_location calm empty_db ''Austin'']\<rparr>) \<and>
   get_or_create_location calm (empty_db\<lparr>locations := [new_location calm empty_db ''Austin'']\<rparr>)
       ''Austin'' =
     (Inr (new_location calm empty_db ''Austin''),
      empty_db\<lparr>locations := [new_location calm empty_db ''Austin'']\<rparr>) \<and>
   location_country (new_location calm empty_db ''Austin'') = ''Unknown''"
proof -
  have h: "faults calm IndustryQuery = None \<and> faults calm IndustryCommit = None \<and>
      faults calm IndustryRefresh = None \<and> faults calm LocationQuery = None \<and>
      faults calm LocationCommit = None \<and> faults calm LocationRefresh = None \<and>
      pending empty_db = [] \<and> industries empty_db = [] \<and> locations empty_db = []"
    by (simp add: calm_def empty_db_def)
  have i: "industry_id (new_industry calm empty_db ''Bakery'') = 1"
    by (simp add: new_industry_def empty_db_def fresh_id_def)
  from get_or_create_idempotent [of calm calm empty_db "''Bakery''"] h
  have 1: "get_or_create_industry calm empty_db ''Bakery'' =
     (Inr (new_industry calm empty_db ''Bakery''),
      empty_db\<lparr>industries := [new_industry calm empty_db ''Bakery'']\<rparr>) \<and>
   get_or_create_industry calm (empty_db\<lparr>industries := [new_industry calm empty_db ''Bakery'']\<rparr>)
       ''Bakery'' =
     (Inr (new_industry calm empty_db ''Bakery''),
      empty_db\<lparr>industries := [new_industry calm empty_db ''Bakery'']\<rparr>)"
    by (simp add: Let_def)
  from get_or_create_idempotent [of calm calm empty_db "''Austin''"] h
  have 2: "get_or_create_location calm empty_db ''Austin'' =
     (Inr (new_location calm empty_db ''Austin''),
      empty_db\<lparr>locations := [new_location calm empty_db ''Austin'']\<rparr>) \<and>
   get_or_create_location calm (empty_db\<lparr>locations := [new_location calm empty_db ''Austin'']\<rparr>)
       ''Austin'' =
     (Inr (new_location calm empty_db ''Austin''),
      empty_db\<lparr>locations := [new_location calm empty_db ''Austin'']\<rparr>) \<and>
   location_country (new_location calm empty_db ''Austin'') = ''Unknown''"
    by (simp add: Let_def)
  from 1 2 i show ?thesis by blast
qed

lemma db_commit_failed: "db_commit fault now db = (Inl e, db') \<Longrightarrow> db' = db"
  by (auto simp: db_commit_def split: option.splits sum.splits)

lemma db_commit_one:
  assumes "pending db = []" "db_commit fault now (db_add obj db) = (Inr u, db')"
  shows "insert_row now obj db = Inr db'"
proof -
  from assms(1) have p: "db\<lparr>pending := []\<rparr> = db" by simp
  from assms show ?thesis
    by (simp add: db_commit_def db_add_def p split: option.splits sum.splits)
qed

lemma insert_row_pending: "insert_row now obj db = Inr db' \<Longrightarrow> pending db' = pending db"
  by (cases obj) (auto split: if_splits)

lemma insert_industry_frame:
  "insert_row now (NewIndustry n d c) db = Inr db' \<Longrightarrow>
   posts db' = posts db \<and> locations db' = locations db"
  by (auto split: if_splits)

lemma insert_location_frame:
  "insert_row now (NewLocation n s c t m) db = Inr db' \<Longrightarrow>
   posts db' = posts db \<and> industries db' = industries db"
  by auto

lemma get_or_create_industry_frame:
  assumes "pending db = []" "get_or_create_industry env db name = (r, db1)"
  shows "posts db1 = posts db \<and> locations db1 = locations db \<and>
         (\<forall>row. r = Inr row \<longrightarrow> pending db1 = [] \<and> row \<in> set (industries db1))"
proof (cases "query_first (faults env IndustryQuery) (\<lambda>row. industry_name row = name) (industries db)")
  case (Inl e)
  with assms show ?thesis by (auto simp: get_or_create_industry_def)
next
  case (Inr found)
  show ?thesis
  proof (cases found)
    case (Some row)
    with Inr have "row \<in> set (industries db)"
      by (auto simp: query_first_def find_Some_iff split: option.splits)
    with Some Inr assms show ?thesis by (auto simp: get_or_create_industry_def)
  next
    case None
    obtain c db2 where c: "db_commit (faults env IndustryCommit) (clock env IndustryCommit)
        (db_add (NewIndustry name None None) db) = (c, db2)"
      by (cases "db_commit (faults env IndustryCommit) (clock env IndustryCommit)
        (db_add (NewIndustry name None None) db)") 
    show ?thesis
    proof (cases c)
      case (Inl e)
      with c have "db2 = db_add (NewIndustry name None None) db"
        using db_commit_failed by blast
      with Inl c None Inr assms show ?thesis
        by (auto simp: get_or_create_industry_def Let_def db_add_def)
    next
      case (Inr u)
      with c assms(1) have i: "insert_row (clock env IndustryCommit) (NewIndustry name None None) db = Inr db2"
        using db_commit_one by blast
      from i have f: "posts db2 = posts db \<and> locations db2 = locations db"
        by (rule insert_industry_frame)
      from i assms(1) have p: "pending db2 = []"
        using insert_row_pending by fastforce
      from Inr c None \<open>query_first _ _ _ = Inr found\<close> assms(2) f p show ?thesis
        by (auto simp: get_or_create_industry_def Let_def split: sum.splits
            dest: db_refresh_in_table)
    qed
  qed
qed

lemma get_or_create_location_frame:
  assumes "pending db = []" "get_or_create_location env db name = (r, db1)"
  shows "posts db1 = posts db \<and> industries db1 = industries db \<and>
         (\<forall>row. r = Inr row \<longrightarrow> pending db1 = [] \<and> row \<in> set (locations db1))"
proof (cases "query_first (faults env LocationQuery) (\<lambda>row. location_name row = name) (locations db)")
  case (Inl e)
  with assms show ?thesis by (auto simp: get_or_create_location_def)
next
  case (Inr found)
  show ?thesis
  proof (cases found)
    case (Some row)
    with Inr have "row \<in> set (locations db)"
      by (auto simp: query_first_def find_Some_iff split: option.splits)
    with Some Inr assms show ?thesis by (auto simp: get_or_create_location_def)
  next
    case None
    obtain c db2 where c: "db_commit (faults env LocationCommit) (clock env LocationCommit)
        (db_add (NewLocation name None ''Unknown'' None None) db) = (c, db2)"
      by (cases "db_commit (faults env LocationCommit) (clock env LocationCommit)
        (db_add (NewLocation name None ''Unknown'' None None) db)") 
    show ?thesis
    proof (cases c)
      case (Inl e)
      with c have "db2 = db_add (NewLocation name None ''Unknown'' None None) db"
        using db_commit_failed by blast
      with Inl c None Inr assms show ?thesis
        by (auto simp: get_or_create_location_def Let_def db_add_def)
    next
      case (Inr u)
      with c assms(1) have i: "insert_row (clock env LocationCommit) (NewLocation name None ''Unknown'' None None) db = Inr db2"
        using db_commit_one by blast
      from i have f: "posts db2 = posts db \<and> industries db2 = industries db"
        by (rule insert_location_frame)
      from i assms(1) have p: "pending db2 = []"
        using insert_row_pending by fastforce
      from Inr c None \<open>query_first _ _ _ = Inr found\<close> assms(2) f p show ?thesis
        by (auto simp: get_or_create_location_def Let_def split: sum.splits
            dest: db_refresh_in_table)
    qed
  qed
qed





text \<open>
  The remaining way to fail: the commit of the post went through and only the
  \<open>db.refresh\<close> after it raised.  The handler still raises, and the post, a whole
  row, is committed.
\<close>

lemma create_blog_post_try_reload:
  assumes clean: "pending db = []"
    and failed: "create_blog_post_try env prov db ind_name loc_name topic style =
      (Inl (PostReload, e), db_t, eff)"
  shows "\<exists>post. posts db_t = posts db @ [post] \<and> post_topic post = topic \<and> post_style post = style"
proof -
  obtain r1 db1 where s1: "get_or_create_industry env db ind_name = (r1, db1)"
    by (cases "get_or_create_industry env db ind_name")
  note f1 = get_or_create_industry_frame [OF clean s1]
  from failed s1 obtain industry where r1: "r1 = Inr industry"
    by (cases r1) (auto simp: create_blog_post_try_def)
  with f1 have clean1: "pending db1 = []" by simp
  obtain r2 db2 where s2: "get_or_create_location env db1 loc_name = (r2, db2)"
    by (cases "get_or_create_location env db1 loc_name")
  note f2 = get_or_create_location_frame [OF clean1 s2]
  from failed s1 r1 s2 obtain location where r2: "r2 = Inr location"
    by (cases r2) (auto simp: create_blog_post_try_def)
  with f2 have clean2: "pending db2 = []" by simp
  obtain r3 eff3 where s3: "generate_blog_content ai_service prov = (r3, eff3)"
    by (cases "generate_blog_content ai_service prov")
  from failed s1 r1 s2 r2 s3 obtain g where r3: "r3 = Inr (Some g)"
    by (cases r3) (auto simp: create_blog_post_try_def split: option.splits)
  let ?obj = "NewPost (industry_id industry) (location_id location) topic (content g) style
                   (Some (tokens_used g))
                   (Some \<lparr>meta_finish_reason = finish_reason g,
                          meta_generation_date = clock env PostCommit\<rparr>)"
  obtain r4 db4 where s4: "db_commit (faults env PostCommit) (clock env PostCommit)
              (db_add ?obj db2) = (r4, db4)"
    by (cases "db_commit (faults env PostCommit) (clock env PostCommit) (db_add ?obj db2)")
  from failed s1 r1 s2 r2 s3 r3 s4 obtain u where r4: "r4 = Inr u" and dbt: "db_t = db4"
    by (cases r4) (auto simp: create_blog_post_try_def Let_def split: sum.splits)
  from s4 r4 clean2 have "insert_row (clock env PostCommit) ?obj db2 = Inr db4"
    using db_commit_one by blast
  with f1 f2 dbt show ?thesis by auto
qed



section \<open>Properties of the generic list and count operations\<close>

lemma apply_filters_unknown_key:
  "m key = None \<Longrightarrow>
   apply_filters m (filter (\<lambda>item. fst item \<noteq> key) items) query = apply_filters m items query"
  by (induction m items query rule: apply_filters.induct)
     (auto split: option.splits attribute.splits)

lemma apply_filters_all_unknown:
  "\<forall>item \<in> set items. m (fst item) = None \<Longrightarrow> apply_filters m items query = Inr query"
  by (induction m items query rule: apply_filters.induct) auto

lemma build_query_all_unknown:
  "\<forall>item \<in> set items. m (fst item) = None \<Longrightarrow> build_query m (Some items) = build_query m None"
  by (simp add: build_query_def apply_filters_all_unknown)

lemma build_query_unknown_key:
  assumes "m key = None"
  shows "build_query m (map_option (filter (\<lambda>item. fst item \<noteq> key)) filters) = build_query m filters"
proof (cases filters)
  case None
  then show ?thesis by (simp add: build_query_def)
next
  case (Some items)
  have "apply_filters m (filter (\<lambda>item. fst item \<noteq> key) items) [] = apply_filters m items []"
    using assms by (rule apply_filters_unknown_key)
  moreover have "filter (\<lambda>item. fst item \<noteq> key) items = [] \<Longrightarrow> apply_filters m items [] = Inr []"
  proof -
    assume "filter (\<lambda>item. fst item \<noteq> key) items = []"
    then have "\<forall>item \<in> set items. fst item = key" by (simp add: filter_empty_conv)
    with assms have "\<forall>item \<in> set items. m (fst item) = None" by simp
    then show ?thesis by (rule apply_filters_all_unknown)
  qed
  ultimately show ?thesis using Some by (auto simp: build_query_def)
qed

text \<open>
  C10.  A key of the filters that is not an attribute of the model is ignored by
  \<open>get_multi\<close> and by \<open>count\<close>: the call gives what the same call gives with that
  key taken out of the filters (the same rows, the same number, or the same error), and
  a call all of whose filter keys are unknown gives what the call without filters
  gives.
\<close>

theorem unknown_filter_keys_ignored:
  "(m key = None \<longrightarrow>
      get_multi m fault table skip limit (map_option (filter (\<lambda>item. fst item \<noteq> key)) filters) =
        get_multi m fault table skip limit filters \<and>
      count m fault table (map_option (filter (\<lambda>item. fst item \<noteq> key)) filters) =
        count m fault table filters) \<and>
   ((\<forall>item \<in> set items. m (fst item) = None) \<longrightarrow>
      get_multi m fault table skip limit (Some items) = get_multi m fault table skip limit None \<and>
      count m fault table (Some items) = count m fault table None)"
proof (intro conjI impI)
  assume "m key = None"
  then have q: "build_query m (map_option (filter (\<lambda>item. fst item \<noteq> key)) filters) =
      build_query m filters"
    by (rule build_query_unknown_key)
  show "get_multi m fault table skip limit (map_option (filter (\<lambda>item. fst item \<noteq> key)) filters) =
      get_multi m fault table skip limit filters"
    unfolding get_multi_def q ..
  show "count m fault table (map_option (filter (\<lambda>item. fst item \<noteq> key)) filters) =
      count m fault table filters"
    unfolding count_def q ..
next
  assume "\<forall>item \<in> set items. m (fst item) = None"
  then have q: "build_query m (Some items) = build_query m None"
    by (rule build_query_all_unknown)
  show "get_multi m fault table skip limit (Some items) = get_multi m fault table skip limit None"
    unfolding get_multi_def q ..
  show "count m fault table (Some items) = count m fault table None"
    unfolding count_def q ..
qed

text \<open>
  The theorem on three industries: the unknown key ``colour'' next to a filter on the
  category leaves the one technology row, and alone it leaves all three rows.
\<close>

theorem unknown_filter_keys_ignored_witness:
  "industry_model ''colour'' = None \<and>
   get_multi industry_model None industry_rows 0 100
       (Some [(''category'', SqlStr ''technology''), (''colour'', SqlStr ''red'')]) =
     Inr [industry_rows ! 1] \<and>
   count industry_model None industry_rows (Some [(''colour'', SqlStr ''red'')]) = Inr 3"
proof -
  have k: "industry_model ''colour'' = None"
    by (simp add: industry_model_def)
  have f: "map_option (filter (\<lambda>item. fst item \<noteq> ''colour''))
        (Some [(''category'', SqlStr ''technology''), (''colour'', SqlStr ''red'')]) =
      Some [(''category'', SqlStr ''technology'')]"
    by simp
  have a: "\<forall>item \<in> set [(''colour'', SqlStr ''red'')]. industry_model (fst item) = None"
    by (simp add: industry_model_def)
  have g: "get_multi industry_model None industry_rows 0 100
        (Some [(''category'', SqlStr ''technology'')]) = Inr [industry_rows ! 1]"
    by (simp add: get_multi_def build_query_def industry_model_def industry_rows_def
        matching_def column_value_def database_error_def)
  have c: "count industry_model None industry_rows None = Inr 3"
    by (simp add: count_def build_query_def industry_rows_def matching_def database_error_def)
  from unknown_filter_keys_ignored
         [of industry_model "''colour''" None industry_rows 0 100
             "Some [(''category'', SqlStr ''technology''), (''colour'', SqlStr ''red'')]"
             "[(''colour'', SqlStr ''red'')]"]
       k f a g c
  show ?thesis by simp
qed

section \<open>Properties of the token count and of the statistics\<close>

lemma split_loop_space:
  "is_space c \<Longrightarrow> split_loop word (u @ c # v) = split_loop word u @ split_loop [] v"
  by (induction u arbitrary: word) auto

lemma split_loop_word:
  "\<forall>c \<in> set w. \<not> is_space c \<Longrightarrow> split_loop word w = (if word @ w = [] then [] else [word @ w])"
  by (induction w arbitrary: word) auto



lemma str_split_ws_space:
  "is_space c \<Longrightarrow> str_split_ws (u @ c # v) = str_split_ws u @ str_split_ws v"
  by (simp add: str_split_ws_def split_loop_space)

lemma str_split_ws_word:
  "w \<noteq> [] \<Longrightarrow> \<forall>c \<in> set w. \<not> is_space c \<Longrightarrow> str_split_ws w = [w]"
  by (simp add: str_split_ws_def split_loop_word)















end
